theory Spec2Isabelle
  imports Complex_Main
begin

section \<open>The dbt objects the wrapper consumes\<close>

text \<open>
  Modelled from the spec: dbt's \<open>NodeStatus\<close> enum (declared by dbt-core, only imported by
  \<open>models.py\<close>). The spec names the members Success, Error, Fail, Skipped, Warn and Pass.
  It is a string enum: \<open>str\<close> of a member is its value, and a member compares equal to
  a string with that value.
\<close>

datatype NodeStatus = Success | Error | Fail | Skipped | Warn | Pass

fun NodeStatus_value :: "NodeStatus \<Rightarrow> string" where
  "NodeStatus_value Success = ''success''"
| "NodeStatus_value Error = ''error''"
| "NodeStatus_value Fail = ''fail''"
| "NodeStatus_value Skipped = ''skipped''"
| "NodeStatus_value Warn = ''warn''"
| "NodeStatus_value Pass = ''pass''"

text \<open>
  Modelled from the spec: dbt's \<open>NodeType\<close> enum (resource type Model, Test, and others,
  kept by their value).
\<close>

datatype NodeType = Model | Test | OtherNodeType string

text \<open>
  The node descriptor of a node outcome, with the attributes \<open>conftest.py\<close> sets on it.
  \<open>resource_type\<close> is read as \<open>getattr(result.node, "resource_type", None)\<close>: \<open>None\<close>
  stands for a descriptor without that attribute.
\<close>

record Node =
  name :: string
  resource_type :: "NodeType option"
  unique_id :: string

text \<open>
  Python values that attribute lookups and keyword arguments carry. \<open>PyObject\<close> is an
  object of any type not spelled out here (a float, a timestamp, a list), kept by a label.
\<close>

datatype pyval =
    PyNone
  | PyBool bool
  | PyInt int
  | PyStr string
  | PyStatus NodeStatus
  | PyNode Node
  | PyDict "(string \<times> int) list"
  | PyObject string

text \<open>
  dbt's \<open>BaseResult\<close> and \<open>NodeResult\<close> dataclasses, with the fields \<open>conftest.py\<close>
  passes to the constructor. \<open>adapter_response\<close> is a dictionary (an association list
  read with \<open>map_of\<close>); \<open>NodeResult\<close> adds the node descriptor.
\<close>

record BaseResult =
  status :: NodeStatus
  timing :: pyval
  thread_id :: string
  execution_time :: pyval
  adapter_response :: "(string \<times> int) list"
  message :: "string option"
  failures :: "int option"

record NodeResult = BaseResult +
  node :: Node

text \<open>
  An element of the result collection: a \<open>NodeResult\<close> (the \<open>isinstance\<close> test of
  \<open>filter_results\<close> holds) or an outcome of another type.
\<close>

datatype Result = IsNodeResult NodeResult | IsOtherResult BaseResult

fun Result_status :: "Result \<Rightarrow> NodeStatus" where
  "Result_status (IsNodeResult r) = status r"
| "Result_status (IsOtherResult r) = status r"

fun Result_adapter_response :: "Result \<Rightarrow> (string \<times> int) list" where
  "Result_adapter_response (IsNodeResult r) = adapter_response r"
| "Result_adapter_response (IsOtherResult r) = adapter_response r"

text \<open>
  Modelled from the spec: the metadata object of an outcome (generation timestamp, project
  identifier, project name, tool version). \<open>hasattr\<close> holds for exactly these names.
\<close>

record ManifestMetadata =
  generated_at :: pyval
  project_id :: pyval
  project_name :: pyval
  dbt_version :: pyval

definition ManifestMetadata_getattr :: "ManifestMetadata \<Rightarrow> string \<Rightarrow> pyval option" where
  "ManifestMetadata_getattr md key =
     (if key = ''generated_at'' then Some (generated_at md)
      else if key = ''project_id'' then Some (project_id md)
      else if key = ''project_name'' then Some (project_name md)
      else if key = ''dbt_version'' then Some (dbt_version md)
      else None)"

text \<open>
  An attribute that may be missing from the object, be \<open>None\<close>, or hold an object:
  \<open>conftest.py\<close> attaches \<open>metadata\<close> after construction and \<open>test_manifest.py\<close>
  deletes it again.
\<close>

datatype 'a attribute = Missing | IsNone | Holds 'a

text \<open>
  Modelled from the spec: the outcome object of one invocation (dbt's
  \<open>RunExecutionResult\<close>): the ordered node outcomes, the elapsed time, the metadata
  object, and arbitrary extra fields reachable by name.
\<close>

record RunExecutionResult =
  results :: "Result list"
  elapsed_time :: pyval
  metadata :: "ManifestMetadata attribute"
  extra_fields :: "(string \<times> pyval) list"

text \<open>What a lookup by name on the wrapper or on the outcome can return.\<close>

datatype attr_value =
    Plain pyval
  | ResultsValue "Result list"
  | MetadataValue ManifestMetadata
  | OutcomeValue RunExecutionResult
  | ClassMember string

definition RunExecutionResult_getattr :: "RunExecutionResult \<Rightarrow> string \<Rightarrow> attr_value option" where
  "RunExecutionResult_getattr res key =
     (if key = ''results'' then Some (ResultsValue (results res))
      else if key = ''elapsed_time'' then Some (Plain (elapsed_time res))
      else if key = ''metadata'' then
        (case metadata res of
           Missing \<Rightarrow> None
         | IsNone \<Rightarrow> Some (Plain PyNone)
         | Holds md \<Rightarrow> Some (MetadataValue md))
      else map_option Plain (map_of (extra_fields res) key))"

section \<open>The result wrapper: \<open>models.py\<close>\<close>

text \<open>
  A Python exception object: its class and its message. \<open>raise e\<close> makes the call
  return \<open>Inl e\<close>, with \<open>e\<close> the object that was raised.
\<close>

datatype py_exception = PyException string string

definition PlainException :: "string \<Rightarrow> py_exception" where
  "PlainException msg = PyException ''Exception'' msg"

definition AttributeError :: "string \<Rightarrow> py_exception" where
  "AttributeError msg = PyException ''AttributeError'' msg"

datatype warning = DeprecationWarning string

record Manifest =
  command :: string
  run_execution_result :: RunExecutionResult

text \<open>
  \<open>Manifest.__init__(command, run_execution_result=None, *, dbt_manifest=None)\<close>. The
  result is the constructed wrapper with the warnings emitted, or the exception raised.
\<close>

definition Manifest_init ::
  "string \<Rightarrow> RunExecutionResult option \<Rightarrow> RunExecutionResult option \<Rightarrow>
     py_exception + (Manifest \<times> warning list)" where
  "Manifest_init cmd rer dbt_manifest =
     (let (rer', ws) =
        (if rer = None \<and> dbt_manifest \<noteq> None
         then (dbt_manifest,
               [DeprecationWarning
                  ''dbt_manifest keyword is deprecated, use run_execution_result instead.''])
         else (rer, []))
      in case rer' of
           None \<Rightarrow> Inl (PlainException ''missing run_execution_result'')
         | Some r \<Rightarrow> Inr (\<lparr>command = cmd, run_execution_result = r\<rparr>, ws))"

text \<open>The message of Python's attribute error: \<open>'T' object has no attribute 'k'\<close>.\<close>

definition no_attribute_message :: "string \<Rightarrow> string \<Rightarrow> string" where
  "no_attribute_message type_name key =
     [CHR 0x27] @ type_name @ [CHR 0x27] @ '' object has no attribute '' @
     [CHR 0x27] @ key @ [CHR 0x27]"

text \<open>
  \<open>Manifest.__getattr__\<close>, which Python calls when the ordinary lookup on the wrapper has
  failed. The wrapper of this model always holds an outcome, so \<open>res\<close> is never \<open>None\<close>.
\<close>

definition Manifest_getattr :: "Manifest \<Rightarrow> string \<Rightarrow> py_exception + attr_value" where
  "Manifest_getattr self key =
     (let res = run_execution_result self;
          md = (case metadata res of Holds m \<Rightarrow> Some m | _ \<Rightarrow> None)
      in case (case md of None \<Rightarrow> None | Some m \<Rightarrow> ManifestMetadata_getattr m key) of
           Some v \<Rightarrow> Inr (Plain v)
         | None \<Rightarrow>
            (case RunExecutionResult_getattr res key of
               Some v \<Rightarrow> Inr v
             | None \<Rightarrow>
                 Inl (AttributeError (no_attribute_message ''Manifest'' key))))"

text \<open>
  \<open>self.results\<close> inside the wrapper's methods: the wrapper and its class define no
  \<open>results\<close>, so the lookup goes through \<open>__getattr__\<close>; the metadata object has no
  such attribute and the outcome's collection is what comes back (lemma
  \<open>Manifest_getattr_results\<close> below).
\<close>

definition self_results :: "Manifest \<Rightarrow> Result list" where
  "self_results self = results (run_execution_result self)"

subsection \<open>Filtering\<close>

text \<open>Python's \<open>str\<close> of an integer: decimal digits, with a minus sign when negative.\<close>

definition digit_char :: "nat \<Rightarrow> char" where
  "digit_char d = ''0123456789'' ! (d mod 10)"

fun str_nat :: "nat \<Rightarrow> string" where
  "str_nat n = (if n < 10 then [digit_char n] else str_nat (n div 10) @ [digit_char (n mod 10)])"

declare str_nat.simps [simp del]

definition str_int :: "int \<Rightarrow> string" where
  "str_int i = (if i < 0 then CHR ''-'' # str_nat (nat (- i)) else str_nat (nat i))"

text \<open>
  Python's \<open>str\<close>. What it gives for a node descriptor, a dictionary or another object
  is decided by dbt's classes, which are not part of this repository: \<open>str_obj\<close> is that
  part, taken as a parameter.
\<close>

fun py_str :: "(pyval \<Rightarrow> string) \<Rightarrow> pyval \<Rightarrow> string" where
  "py_str str_obj PyNone = ''None''"
| "py_str str_obj (PyBool b) = (if b then ''True'' else ''False'')"
| "py_str str_obj (PyInt i) = str_int i"
| "py_str str_obj (PyStr s) = s"
| "py_str str_obj (PyStatus st) = NodeStatus_value st"
| "py_str str_obj v = str_obj v"

text \<open>
  \<open>s == value\<close> for a string \<open>s\<close>: true for an equal string and for a string-enum
  member with that value, false for a value of any other type.
\<close>

fun str_eq :: "string \<Rightarrow> pyval \<Rightarrow> bool" where
  "str_eq s (PyStr t) = (s = t)"
| "str_eq s (PyStatus st) = (s = NodeStatus_value st)"
| "str_eq s v = False"

text \<open>\<open>getattr(result, key)\<close> on a node outcome, over its data attributes.\<close>

definition NodeResult_getattr :: "NodeResult \<Rightarrow> string \<Rightarrow> pyval option" where
  "NodeResult_getattr r key =
     (if key = ''status'' then Some (PyStatus (status r))
      else if key = ''timing'' then Some (timing r)
      else if key = ''thread_id'' then Some (PyStr (thread_id r))
      else if key = ''execution_time'' then Some (execution_time r)
      else if key = ''adapter_response'' then Some (PyDict (adapter_response r))
      else if key = ''message'' then
        Some (case message r of None \<Rightarrow> PyNone | Some s \<Rightarrow> PyStr s)
      else if key = ''failures'' then
        Some (case failures r of None \<Rightarrow> PyNone | Some n \<Rightarrow> PyInt n)
      else if key = ''node'' then Some (PyNode (node r))
      else None)"

text \<open>
  \<open>all(str(getattr(result, key)) == value for key, value in kwargs.items())\<close>: the
  constraints are visited in the dictionary's order and \<open>all\<close> stops at the first that
  fails; a name that is no attribute raises when it is reached.
\<close>

fun all_match ::
  "(pyval \<Rightarrow> string) \<Rightarrow> NodeResult \<Rightarrow> (string \<times> pyval) list \<Rightarrow> py_exception + bool" where
  "all_match str_obj r [] = Inr True"
| "all_match str_obj r ((key, v) # kwargs) =
     (case NodeResult_getattr r key of
        None \<Rightarrow> Inl (AttributeError (no_attribute_message ''NodeResult'' key))
      | Some a \<Rightarrow>
          if str_eq (py_str str_obj a) v then all_match str_obj r kwargs else Inr False)"

fun filter_loop ::
  "(pyval \<Rightarrow> string) \<Rightarrow> Result list \<Rightarrow> (string \<times> pyval) list \<Rightarrow>
     py_exception + NodeResult list" where
  "filter_loop str_obj [] kwargs = Inr []"
| "filter_loop str_obj (IsOtherResult b # rs) kwargs = filter_loop str_obj rs kwargs"
| "filter_loop str_obj (IsNodeResult r # rs) kwargs =
     (case all_match str_obj r kwargs of
        Inl e \<Rightarrow> Inl e
      | Inr keep \<Rightarrow>
          (case filter_loop str_obj rs kwargs of
             Inl e \<Rightarrow> Inl e
           | Inr out \<Rightarrow> Inr (if keep then r # out else out)))"

definition filter_results ::
  "(pyval \<Rightarrow> string) \<Rightarrow> Manifest \<Rightarrow> (string \<times> pyval) list \<Rightarrow> py_exception + NodeResult list" where
  "filter_results str_obj self kwargs = filter_loop str_obj (self_results self) kwargs"

subsection \<open>Derived views\<close>

definition warnings :: "(pyval \<Rightarrow> string) \<Rightarrow> Manifest \<Rightarrow> py_exception + NodeResult list" where
  "warnings str_obj self = filter_results str_obj self [(''status'', PyStatus Warn)]"

definition errors :: "(pyval \<Rightarrow> string) \<Rightarrow> Manifest \<Rightarrow> py_exception + NodeResult list" where
  "errors str_obj self = filter_results str_obj self [(''status'', PyStatus Error)]"

definition fails :: "(pyval \<Rightarrow> string) \<Rightarrow> Manifest \<Rightarrow> py_exception + NodeResult list" where
  "fails str_obj self = filter_results str_obj self [(''status'', PyStatus Fail)]"

definition skips :: "(pyval \<Rightarrow> string) \<Rightarrow> Manifest \<Rightarrow> py_exception + NodeResult list" where
  "skips str_obj self =
     (case filter_results str_obj self [(''status'', PyStatus Skipped)] of
        Inl e \<Rightarrow> Inl e
      | Inr rs \<Rightarrow> Inr (filter (\<lambda>r. resource_type (node r) = Some Model) rs))"

text \<open>
  \<open>collections.Counter\<close> over a list: each element bumps its count, and
  \<open>.get(k, 0)\<close> reads a count with \<open>0\<close> for a key never seen.
\<close>

definition Counter :: "'a list \<Rightarrow> ('a \<rightharpoonup> nat)" where
  "Counter xs =
     fold (\<lambda>x c. c(x \<mapsto> (case c x of None \<Rightarrow> 1 | Some n \<Rightarrow> Suc n))) xs Map.empty"

definition Counter_get :: "('a \<rightharpoonup> nat) \<Rightarrow> 'a \<Rightarrow> nat" where
  "Counter_get c k = (case c k of None \<Rightarrow> 0 | Some n \<Rightarrow> n)"

definition summary :: "Manifest \<Rightarrow> (NodeStatus \<rightharpoonup> nat)" where
  "summary self = Counter (map Result_status (self_results self))"

text \<open>
  \<open>overall_status\<close>. \<open>self.errors or self.fails\<close> reads \<open>fails\<close> only when
  \<open>errors\<close> is empty, and each view is computed when the ladder reaches it.
\<close>

definition overall_status :: "(pyval \<Rightarrow> string) \<Rightarrow> Manifest \<Rightarrow> py_exception + NodeStatus" where
  "overall_status str_obj self =
     (case errors str_obj self of
        Inl e \<Rightarrow> Inl e
      | Inr es \<Rightarrow>
          if es \<noteq> [] then Inr Error
          else
            (case fails str_obj self of
               Inl e \<Rightarrow> Inl e
             | Inr fs \<Rightarrow>
                 if fs \<noteq> [] then Inr Error
                 else
                   (case warnings str_obj self of
                      Inl e \<Rightarrow> Inl e
                    | Inr ws \<Rightarrow>
                        if ws \<noteq> [] then Inr Warn
                        else
                          (let success_keys = [Success, Pass];
                               has_success =
                                 list_ex (\<lambda>k. Counter_get (summary self) k > 0) success_keys
                           in case skips str_obj self of
                                Inl e \<Rightarrow> Inl e
                              | Inr ss \<Rightarrow>
                                  if ss \<noteq> [] \<and> \<not> has_success then Inr Skipped
                                  else Inr Success))))"

text \<open>
  The totals. \<open>adapter_response.get(key, 0)\<close> is summed over every element of the
  collection and the sum is divided by a constant. Python returns the float nearest to
  the quotient; the model keeps the quotient itself, as a rational number.
\<close>

definition dict_get :: "(string \<times> int) list \<Rightarrow> string \<Rightarrow> int \<Rightarrow> int" where
  "dict_get d key dflt = (case map_of d key of None \<Rightarrow> dflt | Some v \<Rightarrow> v)"


definition total_slot_hours :: "Manifest \<Rightarrow> rat" where
  "total_slot_hours self =
     of_int (sum_list (map (\<lambda>n. dict_get (Result_adapter_response n) ''slot_ms'' 0)
                           (self_results self)))
       / 3600000"

text \<open>
  Python's lookup of \<open>manifest.key\<close>. The fields the constructor sets on the wrapper,
  the names the class body defines and the names the class inherits from \<open>object\<close> are
  found by the ordinary lookup; \<open>__getattr__\<close> is called for every other name. The
  inherited names are Python's, not this repository's: \<open>inherited\<close> is that list, taken
  as a parameter. \<open>ClassMember\<close> stands for the member the class provides under a name.
\<close>

definition Manifest_class_members :: "string list" where
  "Manifest_class_members =
     [''__init__'', ''__getattr__'', ''__dir__'', ''filter_results'', ''dbt_manifest'',
      ''overall_status'', ''warnings'', ''errors'', ''fails'', ''skips'', ''summary'',
      ''total_gb_processed'', ''total_slot_hours'']"

definition Manifest_lookup :: "string list \<Rightarrow> Manifest \<Rightarrow> string \<Rightarrow> py_exception + attr_value" where
  "Manifest_lookup inherited self key =
     (if key = ''command'' then Inr (Plain (PyStr (command self)))
      else if key = ''run_execution_result'' then Inr (OutcomeValue (run_execution_result self))
      else if key \<in> set Manifest_class_members \<or> key \<in> set inherited then Inr (ClassMember key)
      else Manifest_getattr self key)"

subsection \<open>The fixtures of \<open>conftest.py\<close>\<close>

definition dbt_node_factory :: "NodeStatus \<Rightarrow> string \<Rightarrow> NodeType \<Rightarrow> int \<Rightarrow> Result" where
  "dbt_node_factory st nm rt bytes_processed =
     IsNodeResult
       \<lparr>status = st, timing = PyObject ''[]'', thread_id = ''thread-1'',
        execution_time = PyObject ''1.0'',
        adapter_response = [(''bytes_processed'', bytes_processed), (''slot_ms'', 3600000)],
        message = Some ''Success'', failures = None,
        node = \<lparr>name = nm, resource_type = Some rt,
                unique_id = (case rt of Model \<Rightarrow> ''model'' | Test \<Rightarrow> ''test''
                               | OtherNodeType v \<Rightarrow> v) @ ''.parsons.'' @ nm\<rparr>\<rparr>"

definition run_execution_result_factory :: "Result list \<Rightarrow> RunExecutionResult" where
  "run_execution_result_factory rs =
     \<lparr>results = rs, elapsed_time = PyObject ''10.0'',
      metadata = Holds \<lparr>generated_at = PyObject ''now'', project_id = PyStr ''parsons_project'',
                        project_name = PyNone, dbt_version = PyObject ''installed''\<rparr>,
      extra_fields = []\<rparr>"

section \<open>The command facade: \<open>dbt.py\<close>\<close>

text \<open>
  A directory path is kept as the string \<open>str(path)\<close> gives. A \<open>Path\<close> object is always
  true in a condition, so \<open>if self.dbt_profile_directory\<close> asks whether one was supplied.
\<close>

record dbtRunnerParsons =
  commands :: "string list"
  dbt_project_directory :: string
  dbt_profile_directory :: "string option"

datatype commands_arg = OneCommand string | CommandList "string list"

definition dbtRunnerParsons_init ::
  "commands_arg \<Rightarrow> string \<Rightarrow> string option \<Rightarrow> dbtRunnerParsons" where
  "dbtRunnerParsons_init cmds project_dir profile_dir =
     \<lparr>commands = (case cmds of OneCommand c \<Rightarrow> [c] | CommandList cs \<Rightarrow> cs),
      dbt_project_directory = project_dir,
      dbt_profile_directory = profile_dir\<rparr>"

text \<open>
  What dbt's \<open>invoke\<close> returns: an exception field and a result field. An exception
  object is true in a condition, so \<open>if result.exception\<close> asks whether one is there.
\<close>

record dbtRunnerResult =
  exception :: "py_exception option"
  result :: "RunExecutionResult option"

text \<open>
  \<open>command.split(" ")\<close>: a cut at every space character. The empty string gives one
  empty token, and two spaces in a row give an empty token between them.
\<close>

fun split_space :: "string \<Rightarrow> string list" where
  "split_space [] = [[]]"
| "split_space (c # cs) =
     (if c = CHR '' '' then [] # split_space cs
      else (case split_space cs of
              [] \<Rightarrow> [[c]]
            | t # ts \<Rightarrow> (c # t) # ts))"

text \<open>\<open>if command.startswith("dbt "): command = command[4:]\<close>\<close>

definition strip_dbt :: "string \<Rightarrow> string" where
  "strip_dbt cmd = (if take 4 cmd = ''dbt '' then drop 4 cmd else cmd)"

text \<open>The list \<open>cli_args\<close> that \<open>execute_dbt_command\<close> hands to the runner.\<close>

definition cli_args :: "dbtRunnerParsons \<Rightarrow> string \<Rightarrow> string list" where
  "cli_args self cmd =
     split_space (strip_dbt cmd)
       @ [''--project-dir'', dbt_project_directory self]
       @ (case dbt_profile_directory self of
            None \<Rightarrow> []
          | Some d \<Rightarrow> [''--profiles-dir'', d])"

text \<open>
  The runner is dbt's: \<open>invoke\<close> is a parameter, a function of the argument list and of
  the state of the world it works on (project files, warehouse), returning its result and
  the new state.
\<close>

definition execute_dbt_command ::
  "(string list \<Rightarrow> 'w \<Rightarrow> dbtRunnerResult \<times> 'w) \<Rightarrow> dbtRunnerParsons \<Rightarrow> string \<Rightarrow> 'w \<Rightarrow>
     (py_exception + Manifest) \<times> 'w" where
  "execute_dbt_command invoke self cmd w =
     (let (r, w') = invoke (cli_args self cmd) w
      in case exception r of
           Some e \<Rightarrow> (Inl e, w')
         | None \<Rightarrow>
             (case Manifest_init (strip_dbt cmd) (result r) None of
                Inl e \<Rightarrow> (Inl e, w')
              | Inr (m, ws) \<Rightarrow> (Inr m, w')))"

text \<open>
  The loop of \<open>run\<close>. \<open>if result.run_execution_result\<close> is the truth value of the
  outcome object, which dbt's class decides: \<open>truthy\<close> is that part, taken as a parameter.
\<close>

fun run_loop ::
  "(RunExecutionResult \<Rightarrow> bool) \<Rightarrow> (string list \<Rightarrow> 'w \<Rightarrow> dbtRunnerResult \<times> 'w) \<Rightarrow>
     dbtRunnerParsons \<Rightarrow> string list \<Rightarrow> Manifest list \<Rightarrow> 'w \<Rightarrow>
     (py_exception + Manifest list) \<times> 'w" where
  "run_loop truthy invoke self [] acc w = (Inr acc, w)"
| "run_loop truthy invoke self (cmd # rest) acc w =
     (case execute_dbt_command invoke self cmd w of
        (Inl e, w') \<Rightarrow> (Inl e, w')
      | (Inr m, w') \<Rightarrow>
          run_loop truthy invoke self rest
            (if truthy (run_execution_result m) then acc @ [m] else acc) w')"

definition run ::
  "(RunExecutionResult \<Rightarrow> bool) \<Rightarrow> (string list \<Rightarrow> 'w \<Rightarrow> dbtRunnerResult \<times> 'w) \<Rightarrow>
     dbtRunnerParsons \<Rightarrow> 'w \<Rightarrow> (py_exception + Manifest list) \<times> 'w" where
  "run truthy invoke self w = run_loop truthy invoke self (commands self) [] w"

text \<open>
  A runner that also writes down every argument list it is invoked with, in order: the
  log tells which commands were executed.
\<close>

definition logged ::
  "(string list \<Rightarrow> 'w \<Rightarrow> dbtRunnerResult \<times> 'w) \<Rightarrow>
     string list \<Rightarrow> 'w \<times> string list list \<Rightarrow> dbtRunnerResult \<times> ('w \<times> string list list)" where
  "logged invoke args s =
     (let (r, w') = invoke args (fst s) in (r, (w', snd s @ [args])))"

section \<open>Notions used to state the properties\<close>

text \<open>The node outcomes of a result collection, in order: its \<open>NodeResult\<close> elements.\<close>

primrec node_outcomes :: "Result list \<Rightarrow> NodeResult list" where
  "node_outcomes [] = []"
| "node_outcomes (x # xs) =
     (case x of IsNodeResult r \<Rightarrow> r # node_outcomes xs | IsOtherResult b \<Rightarrow> node_outcomes xs)"

text \<open>The names for which \<open>getattr\<close> on a node outcome succeeds.\<close>

definition NodeResult_fields :: "string list" where
  "NodeResult_fields =
     [''status'', ''timing'', ''thread_id'', ''execution_time'', ''adapter_response'',
      ''message'', ''failures'', ''node'']"

text \<open>
  One constraint \<open>key=value\<close> holds of a node outcome: the attribute exists and its
  \<open>str\<close> equals the value.
\<close>

definition satisfies :: "(pyval \<Rightarrow> string) \<Rightarrow> NodeResult \<Rightarrow> string \<times> pyval \<Rightarrow> bool" where
  "satisfies str_obj r kv =
     (case NodeResult_getattr r (fst kv) of
        None \<Rightarrow> False
      | Some a \<Rightarrow> str_eq (py_str str_obj a) (snd kv))"

text \<open>
  The wrappers \<open>test_manifest.py\<close> builds: nodes from the factory with default name,
  resource type Model and no bytes, wrapped for the command \<open>run\<close>.
\<close>

definition test_manifest :: "Result list \<Rightarrow> Manifest" where
  "test_manifest nodes =
     \<lparr>command = ''run'', run_execution_result = run_execution_result_factory nodes\<rparr>"

definition nodes_with_status :: "NodeStatus list \<Rightarrow> Result list" where
  "nodes_with_status sts = map (\<lambda>s. dbt_node_factory s ''my_model'' Model 0) sts"


text \<open>
  The tokens of a command as the spec words them: the maximal runs of characters that are
  not whitespace. Whitespace is the space, the tab, the line and page breaks and the four
  separator controls, the ASCII characters Python counts as whitespace.
\<close>

definition is_whitespace :: "char \<Rightarrow> bool" where
  "is_whitespace c \<longleftrightarrow>
     c \<in> set [CHR '' '', CHR 0x09, CHR 0x0A, CHR 0x0B, CHR 0x0C, CHR 0x0D,
              CHR 0x1C, CHR 0x1D, CHR 0x1E, CHR 0x1F]"

fun tokens_from :: "string \<Rightarrow> string \<Rightarrow> string list" where
  "tokens_from cur [] = (if cur = [] then [] else [cur])"
| "tokens_from cur (c # cs) =
     (if is_whitespace c then (if cur = [] then tokens_from [] cs else cur # tokens_from [] cs)
      else tokens_from (cur @ [c]) cs)"

definition whitespace_separated_tokens :: "string \<Rightarrow> string list" where
  "whitespace_separated_tokens s = tokens_from [] s"

definition spec_cli_args :: "dbtRunnerParsons \<Rightarrow> string \<Rightarrow> string list" where
  "spec_cli_args self cmd =
     whitespace_separated_tokens (strip_dbt cmd)
       @ [''--project-dir'', dbt_project_directory self]
       @ (case dbt_profile_directory self of
            None \<Rightarrow> []
          | Some d \<Rightarrow> [''--profiles-dir'', d])"

text \<open>Tokens put back together with one space between neighbours.\<close>

fun join_space :: "string list \<Rightarrow> string" where
  "join_space [] = []"
| "join_space [t] = t"
| "join_space (t # u # ts) = t @ CHR '' '' # join_space (u # ts)"

text \<open>
  What the metadata object of an outcome holds under a name: nothing when the outcome has
  no metadata object or the object lacks the name.
\<close>

definition metadata_has :: "RunExecutionResult \<Rightarrow> string \<Rightarrow> pyval option" where
  "metadata_has res key =
     (case metadata res of Holds md \<Rightarrow> ManifestMetadata_getattr md key | _ \<Rightarrow> None)"

section \<open>Concrete inputs\<close>

text \<open>
  An outcome of another type, a failing test and a skipped model, a wrapper's outcome
  without metadata but with a custom field (as \<open>test_getattr_missing_metadata\<close> builds
  it), and a runner for batches: \<open>deps\<close> succeeds without an outcome object, \<open>test\<close>
  reports an exception, every other command returns one successful node; the state counts
  the invocations.
\<close>

definition other_result :: BaseResult where
  "other_result =
     \<lparr>status = Skipped, timing = PyObject ''[]'', thread_id = ''thread-1'',
      execution_time = PyObject ''1.0'', adapter_response = [], message = Some ''Success'',
      failures = None\<rparr>"

definition failing_test :: NodeResult where
  "failing_test =
     \<lparr>status = Fail, timing = PyObject ''[]'', thread_id = ''thread-2'',
      execution_time = PyObject ''0.5'', adapter_response = [], message = None,
      failures = Some 12,
      node = \<lparr>name = ''t1'', resource_type = Some Test, unique_id = ''test.parsons.t1''\<rparr>\<rparr>"

definition skipped_model :: NodeResult where
  "skipped_model =
     \<lparr>status = Skipped, timing = PyObject ''[]'', thread_id = ''thread-1'',
      execution_time = PyObject ''1.0'',
      adapter_response = [(''bytes_processed'', 0), (''slot_ms'', 3600000)],
      message = Some ''Success'', failures = None,
      node = \<lparr>name = ''m1'', resource_type = Some Model, unique_id = ''model.parsons.m1''\<rparr>\<rparr>"

definition custom_outcome :: RunExecutionResult where
  "custom_outcome =
     \<lparr>results = [], elapsed_time = PyObject ''10.0'', metadata = Missing,
      extra_fields = [(''custom_field'', PyStr ''test_value'')]\<rparr>"

definition stub_invoke :: "string list \<Rightarrow> nat \<Rightarrow> dbtRunnerResult \<times> nat" where
  "stub_invoke args n =
     (if take 1 args = [''deps''] then \<lparr>exception = None, result = None\<rparr>
      else if take 1 args = [''test''] then
        \<lparr>exception = Some (PyException ''DbtInternalException'' ''dbt profile not found''),
         result = None\<rparr>
      else \<lparr>exception = None,
            result = Some (run_execution_result_factory
                             [dbt_node_factory Success ''my_model'' Model 0])\<rparr>,
      Suc n)"

definition stub_runner :: "string list \<Rightarrow> dbtRunnerParsons" where
  "stub_runner cmds = dbtRunnerParsons_init (CommandList cmds) ''/proj'' None"

definition nonempty_results :: "RunExecutionResult \<Rightarrow> bool" where
  "nonempty_results res \<longleftrightarrow> results res \<noteq> []"

section \<open>Auxiliary lemmas\<close>

lemma NodeStatus_value_inj: "NodeStatus_value a = NodeStatus_value b \<longleftrightarrow> a = b"
  by (cases a; cases b) simp_all

lemma NodeResult_getattr_defined:
  "NodeResult_getattr r key \<noteq> None \<longleftrightarrow> key \<in> set NodeResult_fields"
  by (simp add: NodeResult_getattr_def NodeResult_fields_def)

lemma all_match_fields:
  "fst ` set kwargs \<subseteq> set NodeResult_fields \<Longrightarrow>
     all_match str_obj r kwargs = Inr (list_all (satisfies str_obj r) kwargs)"
proof (induction kwargs)
  case Nil
  show ?case by simp
next
  case (Cons kv kwargs)
  obtain k v where kv: "kv = (k, v)" by (cases kv)
  from Cons.prems kv have "k \<in> set NodeResult_fields" by simp
  then obtain a where a: "NodeResult_getattr r k = Some a"
    using NodeResult_getattr_defined [of r k] by auto
  from Cons.prems have "fst ` set kwargs \<subseteq> set NodeResult_fields" by simp
  then have IH: "all_match str_obj r kwargs = Inr (list_all (satisfies str_obj r) kwargs)"
    by (rule Cons.IH)
  have here: "satisfies str_obj r (k, v) = str_eq (py_str str_obj a) v"
    by (simp add: satisfies_def a)
  show ?case by (simp add: kv a IH here)
qed

lemma filter_loop_fields:
  "fst ` set kwargs \<subseteq> set NodeResult_fields \<Longrightarrow>
     filter_loop str_obj rs kwargs =
       Inr (filter (\<lambda>r. list_all (satisfies str_obj r) kwargs) (node_outcomes rs))"
proof (induction rs)
  case Nil
  show ?case by simp
next
  case (Cons x xs)
  then have IH: "filter_loop str_obj xs kwargs =
       Inr (filter (\<lambda>r. list_all (satisfies str_obj r) kwargs) (node_outcomes xs))"
    by simp
  show ?case
  proof (cases x)
    case (IsNodeResult r)
    then show ?thesis using IH Cons.prems by (simp add: all_match_fields)
  next
    case (IsOtherResult b)
    then show ?thesis using IH by simp
  qed
qed

lemma satisfies_status:
  "satisfies str_obj r (''status'', PyStatus st) \<longleftrightarrow> status r = st"
  by (simp add: satisfies_def NodeResult_getattr_def NodeStatus_value_inj)

lemma filter_results_status:
  "filter_results str_obj self [(''status'', PyStatus st)] =
     Inr (filter (\<lambda>r. status r = st) (node_outcomes (self_results self)))"
  by (simp add: filter_results_def filter_loop_fields NodeResult_fields_def satisfies_status)

lemma errors_eq:
  "errors str_obj self = Inr (filter (\<lambda>r. status r = Error) (node_outcomes (self_results self)))"
  by (simp add: errors_def filter_results_status)

lemma fails_eq:
  "fails str_obj self = Inr (filter (\<lambda>r. status r = Fail) (node_outcomes (self_results self)))"
  by (simp add: fails_def filter_results_status)

lemma warnings_eq:
  "warnings str_obj self = Inr (filter (\<lambda>r. status r = Warn) (node_outcomes (self_results self)))"
  by (simp add: warnings_def filter_results_status)

lemma skips_eq:
  "skips str_obj self =
     Inr (filter (\<lambda>r. status r = Skipped \<and> resource_type (node r) = Some Model)
            (node_outcomes (self_results self)))"
  by (simp add: skips_def filter_results_status conj_commute)

lemma Manifest_getattr_results:
  "Manifest_getattr self ''results'' = Inr (ResultsValue (self_results self))"
  by (simp add: Manifest_getattr_def ManifestMetadata_getattr_def RunExecutionResult_getattr_def
      self_results_def Let_def split: attribute.splits)

lemma Counter_get_fold:
  "Counter_get (fold (\<lambda>x c. c(x \<mapsto> (case c x of None \<Rightarrow> 1 | Some n \<Rightarrow> Suc n))) xs c0) k
     = Counter_get c0 k + count_list xs k"
  by (induction xs arbitrary: c0) (auto simp: Counter_get_def split: option.splits)

lemma Counter_get_Counter: "Counter_get (Counter xs) k = count_list xs k"
  by (simp add: Counter_def Counter_get_fold) (simp add: Counter_get_def)

lemma summary_count:
  "Counter_get (summary self) k = count_list (map Result_status (self_results self)) k"
  by (simp add: summary_def Counter_get_Counter)

lemma set_node_outcomes: "set (node_outcomes rs) = {r. IsNodeResult r \<in> set rs}"
  by (induction rs) (auto split: Result.splits)

lemma overall_status_by_views:
  "overall_status str_obj self =
     Inr (if filter (\<lambda>r. status r = Error) (node_outcomes (self_results self)) \<noteq> []
             \<or> filter (\<lambda>r. status r = Fail) (node_outcomes (self_results self)) \<noteq> [] then Error
          else if filter (\<lambda>r. status r = Warn) (node_outcomes (self_results self)) \<noteq> [] then Warn
          else if filter (\<lambda>r. status r = Skipped \<and> resource_type (node r) = Some Model)
                    (node_outcomes (self_results self)) \<noteq> []
                  \<and> Counter_get (summary self) Success = 0
                  \<and> Counter_get (summary self) Pass = 0 then Skipped
          else Success)"
  by (simp add: overall_status_def errors_eq fails_eq warnings_eq skips_eq Let_def)

lemma self_results_test_manifest: "self_results (test_manifest nodes) = nodes"
  by (simp add: self_results_def test_manifest_def run_execution_result_factory_def)

lemma run_loop_append:
  "run_loop truthy invoke self (xs @ ys) acc w =
     (case run_loop truthy invoke self xs acc w of
        (Inl e, w') \<Rightarrow> (Inl e, w')
      | (Inr acc', w') \<Rightarrow> run_loop truthy invoke self ys acc' w')"
proof (induction xs arbitrary: acc w)
  case Nil
  show ?case by simp
next
  case (Cons x xs)
  show ?case
    by (cases "execute_dbt_command invoke self x w") (auto simp: Cons.IH split: sum.splits)
qed

lemma execute_exception:
  "invoke (cli_args self cmd) w = (r, w') \<Longrightarrow> exception r = Some e \<Longrightarrow>
     execute_dbt_command invoke self cmd w = (Inl e, w')"
  by (simp add: execute_dbt_command_def)

lemma execute_missing_outcome:
  "invoke (cli_args self cmd) w = (r, w') \<Longrightarrow> exception r = None \<Longrightarrow> result r = None \<Longrightarrow>
     execute_dbt_command invoke self cmd w =
       (Inl (PyException ''Exception'' ''missing run_execution_result''), w')"
  by (simp add: execute_dbt_command_def Manifest_init_def PlainException_def)

lemma execute_logged:
  "execute_dbt_command (logged invoke) self cmd (w, seen) =
     (case execute_dbt_command invoke self cmd w of
        (res, w') \<Rightarrow> (res, (w', seen @ [cli_args self cmd])))"
  by (simp add: execute_dbt_command_def logged_def split: prod.splits option.splits sum.splits)

lemma run_loop_logged_ok:
  "run_loop truthy invoke self cs acc w = (Inr out, w') \<Longrightarrow>
     run_loop truthy (logged invoke) self cs acc (w, seen) =
       (Inr out, (w', seen @ map (cli_args self) cs))"
proof (induction cs arbitrary: acc w seen)
  case Nil
  then show ?case by simp
next
  case (Cons c cs)
  obtain res w1 where ex: "execute_dbt_command invoke self c w = (res, w1)"
    by (cases "execute_dbt_command invoke self c w")
  show ?case
  proof (cases res)
    case (Inl e)
    with Cons.prems ex show ?thesis by simp
  next
    case (Inr m)
    with Cons.prems ex have
      "run_loop truthy invoke self cs (if truthy (run_execution_result m) then acc @ [m] else acc) w1
         = (Inr out, w')" by simp
    from Cons.IH [OF this, of "seen @ [cli_args self c]"] ex Inr
    show ?thesis by (simp add: execute_logged)
  qed
qed

lemma split_space_nonempty: "split_space s \<noteq> []"
  by (induction s) (auto split: list.splits)

lemma join_split_space: "join_space (split_space s) = s"
proof (induction s)
  case Nil
  show ?case by simp
next
  case (Cons c cs)
  obtain t ts where ts: "split_space cs = t # ts"
    using split_space_nonempty [of cs] by (cases "split_space cs") auto
  with Cons.IH have "join_space (t # ts) = cs" by simp
  then show ?case using ts by (cases ts) auto
qed

lemma split_space_no_space: "t \<in> set (split_space s) \<Longrightarrow> CHR '' '' \<notin> set t"
  by (induction s arbitrary: t) (auto split: if_splits list.splits)

lemma tokens_from_split:
  "\<forall>c \<in> set s. is_whitespace c \<longrightarrow> c = CHR '' '' \<Longrightarrow>
     tokens_from cur s =
       filter (\<lambda>t. t \<noteq> []) ((cur @ hd (split_space s)) # tl (split_space s))"
proof (induction s arbitrary: cur)
  case Nil
  show ?case by simp
next
  case (Cons c cs)
  obtain t ts where ts: "split_space cs = t # ts"
    using split_space_nonempty [of cs] by (cases "split_space cs") auto
  from Cons.prems have rest: "\<forall>c \<in> set cs. is_whitespace c \<longrightarrow> c = CHR '' ''" by simp
  show ?case
  proof (cases "c = CHR '' ''")
    case True
    then have "is_whitespace c" by (simp add: is_whitespace_def)
    with True show ?thesis using Cons.IH [OF rest, of "[]"] ts by simp
  next
    case False
    with Cons.prems have "\<not> is_whitespace c" by auto
    with False show ?thesis using Cons.IH [OF rest, of "cur @ [c]"] ts by simp
  qed
qed

lemma whitespace_tokens_split:
  "\<forall>c \<in> set s. is_whitespace c \<longrightarrow> c = CHR '' '' \<Longrightarrow>
     whitespace_separated_tokens s = filter (\<lambda>t. t \<noteq> []) (split_space s)"
  using tokens_from_split [of s "[]"] split_space_nonempty [of s]
  by (cases "split_space s") (auto simp: whitespace_separated_tokens_def)

section \<open>Properties of the result wrapper\<close>

text \<open>
  Claim C6. Constructing a wrapper fails exactly when both the outcome argument and the
  deprecated \<open>dbt_manifest\<close> keyword are \<open>None\<close>, and then with the exception
  \<open>Exception("missing run_execution_result")\<close>. With no outcome argument and a
  deprecated keyword that holds an outcome, that outcome becomes the wrapper's field, one
  deprecation warning is emitted and the construction succeeds. With an outcome argument
  the wrapper holds it and nothing is emitted.
\<close>

theorem Manifest_init_fails_iff:
  "((\<exists>e. Manifest_init cmd primary legacy = Inl e) \<longleftrightarrow> primary = None \<and> legacy = None)
   \<and> (primary = None \<and> legacy = None \<longrightarrow>
        Manifest_init cmd primary legacy = Inl (PyException ''Exception'' ''missing run_execution_result''))
   \<and> (\<forall>r. primary = None \<and> legacy = Some r \<longrightarrow>
        Manifest_init cmd primary legacy
          = Inr (\<lparr>command = cmd, run_execution_result = r\<rparr>,
                 [DeprecationWarning
                    ''dbt_manifest keyword is deprecated, use run_execution_result instead.'']))
   \<and> (\<forall>r. primary = Some r \<longrightarrow>
        Manifest_init cmd primary legacy = Inr (\<lparr>command = cmd, run_execution_result = r\<rparr>, []))"
  by (cases primary; cases legacy) (simp_all add: Manifest_init_def PlainException_def)

theorem Manifest_init_fails_iff_witness:
  "Manifest_init ''run'' None (Some (run_execution_result_factory []))
     = Inr (\<lparr>command = ''run'', run_execution_result = run_execution_result_factory []\<rparr>,
            [DeprecationWarning
               ''dbt_manifest keyword is deprecated, use run_execution_result instead.''])
   \<and> Manifest_init ''run'' None None
     = Inl (PyException ''Exception'' ''missing run_execution_result'')
   \<and> (\<exists>e. Manifest_init ''run'' None None = Inl e)"
  using Manifest_init_fails_iff [of "''run''" None "Some (run_execution_result_factory [])"]
    Manifest_init_fails_iff [of "''run''" None None]
  by simp

text \<open>
  Claim C5. Looking a name up on a wrapper: a field set on the wrapper (\<open>command\<close>,
  \<open>run_execution_result\<close>) is returned. For a name that the wrapper and its class do
  not provide, the value comes from the outcome's metadata object when that object has the
  name; otherwise from the outcome object when it has the name; otherwise the lookup raises
  \<open>AttributeError\<close> with the message
  \<open>'Manifest' object has no attribute '<key>'\<close>, which names the wrapper type and the
  missing key.
\<close>

theorem Manifest_lookup_chain:
  "(key = ''command'' \<longrightarrow> Manifest_lookup inherited self key = Inr (Plain (PyStr (command self))))
   \<and> (key = ''run_execution_result'' \<longrightarrow>
        Manifest_lookup inherited self key = Inr (OutcomeValue (run_execution_result self)))
   \<and> (key \<noteq> ''command'' \<and> key \<noteq> ''run_execution_result''
         \<and> key \<notin> set Manifest_class_members \<and> key \<notin> set inherited \<longrightarrow>
        Manifest_lookup inherited self key =
          (case metadata_has (run_execution_result self) key of
             Some v \<Rightarrow> Inr (Plain v)
           | None \<Rightarrow>
               (case RunExecutionResult_getattr (run_execution_result self) key of
                  Some v \<Rightarrow> Inr v
                | None \<Rightarrow>
                    Inl (PyException ''AttributeError''
                           ([CHR 0x27] @ ''Manifest'' @ [CHR 0x27] @ '' object has no attribute ''
                              @ [CHR 0x27] @ key @ [CHR 0x27])))))"
  by (auto simp: Manifest_lookup_def Manifest_getattr_def metadata_has_def Let_def
      Manifest_class_members_def AttributeError_def no_attribute_message_def
      split: attribute.splits option.splits)

theorem Manifest_lookup_chain_witness:
  "Manifest_lookup [''__class__'', ''__dict__''] \<lparr>command = ''test'', run_execution_result = custom_outcome\<rparr> ''command''
     = Inr (Plain (PyStr ''test''))
   \<and> Manifest_lookup [''__class__'', ''__dict__''] (test_manifest []) ''project_id'' = Inr (Plain (PyStr ''parsons_project''))
   \<and> Manifest_lookup [''__class__'', ''__dict__''] (test_manifest []) ''results'' = Inr (ResultsValue [])
   \<and> Manifest_lookup [''__class__'', ''__dict__''] \<lparr>command = ''test'', run_execution_result = custom_outcome\<rparr> ''custom_field''
     = Inr (Plain (PyStr ''test_value''))
   \<and> Manifest_lookup [''__class__'', ''__dict__''] \<lparr>command = ''test'', run_execution_result = custom_outcome\<rparr> ''missing_key''
     = Inl (PyException ''AttributeError''
              ([CHR 0x27] @ ''Manifest'' @ [CHR 0x27] @ '' object has no attribute ''
                 @ [CHR 0x27] @ ''missing_key'' @ [CHR 0x27]))"
  using
    Manifest_lookup_chain [of "''command''" "[''__class__'', ''__dict__'']" "\<lparr>command = ''test'', run_execution_result = custom_outcome\<rparr>"]
    Manifest_lookup_chain [of "''project_id''" "[''__class__'', ''__dict__'']" "test_manifest []"]
    Manifest_lookup_chain [of "''results''" "[''__class__'', ''__dict__'']" "test_manifest []"]
    Manifest_lookup_chain [of "''custom_field''" "[''__class__'', ''__dict__'']" "\<lparr>command = ''test'', run_execution_result = custom_outcome\<rparr>"]
    Manifest_lookup_chain [of "''missing_key''" "[''__class__'', ''__dict__'']" "\<lparr>command = ''test'', run_execution_result = custom_outcome\<rparr>"]
  by (simp add: Manifest_class_members_def metadata_has_def custom_outcome_def test_manifest_def
      run_execution_result_factory_def ManifestMetadata_getattr_def RunExecutionResult_getattr_def)

text \<open>
  Claim C7. For constraints that name attributes of node outcomes, \<open>filter_results\<close>
  returns exactly the node outcomes of the result collection (elements of other types are
  left out) for which every constraint holds, that is, \<open>str\<close> of the named attribute
  equals the given value; the order of the collection is kept.
\<close>

theorem filter_results_exact:
  assumes "fst ` set kwargs \<subseteq> set NodeResult_fields"
  shows "filter_results str_obj self kwargs =
           Inr (filter (\<lambda>r. \<forall>kv \<in> set kwargs. satisfies str_obj r kv)
                  (node_outcomes (self_results self)))"
  using assms by (simp add: filter_results_def filter_loop_fields list_all_iff)

theorem filter_results_exact_witness:
  "fst ` set [(''status'', PyStatus Fail), (''failures'', PyStr ''12'')] \<subseteq> set NodeResult_fields
   \<and> filter_results (\<lambda>v. ''obj'')
        (test_manifest [dbt_node_factory Fail ''m1'' Model 0, IsOtherResult other_result,
                        IsNodeResult failing_test, dbt_node_factory Success ''m2'' Model 0])
        [(''status'', PyStatus Fail), (''failures'', PyStr ''12'')]
      = Inr [failing_test]"
proof -
  have h: "fst ` set [(''status'', PyStatus Fail), (''failures'', PyStr ''12'')]
             \<subseteq> set NodeResult_fields"
    by (simp add: NodeResult_fields_def)
  have s12: "str_int 12 = ''12''"
    by (simp add: str_int_def str_nat.simps digit_char_def)
  show ?thesis
    using h filter_results_exact [OF h, of "\<lambda>v. ''obj''"
        "test_manifest [dbt_node_factory Fail ''m1'' Model 0, IsOtherResult other_result,
                        IsNodeResult failing_test, dbt_node_factory Success ''m2'' Model 0]"]
    by (simp add: self_results_test_manifest satisfies_def NodeResult_getattr_def
        dbt_node_factory_def failing_test_def s12)
qed

text \<open>
  Claim C8. \<open>skips\<close> is the list of the node outcomes whose status is Skipped and whose
  node has resource type Model, in the collection's order: a node outcome is in it exactly
  when it is such an outcome of the collection, and an outcome whose node has another
  resource type (a skipped test) is never in it.
\<close>

theorem skips_skipped_models_only:
  "skips str_obj self =
     Inr (filter (\<lambda>r. status r = Skipped \<and> resource_type (node r) = Some Model)
            (node_outcomes (self_results self)))
   \<and> (\<forall>ss r. skips str_obj self = Inr ss \<longrightarrow>
         (r \<in> set ss \<longleftrightarrow>
            IsNodeResult r \<in> set (self_results self) \<and> status r = Skipped
              \<and> resource_type (node r) = Some Model))
   \<and> (\<forall>ss r. skips str_obj self = Inr ss \<and> resource_type (node r) \<noteq> Some Model \<longrightarrow> r \<notin> set ss)"
  by (auto simp: skips_eq set_node_outcomes)

theorem skips_skipped_models_only_witness:
  "skips (\<lambda>v. ''obj'')
     (test_manifest [dbt_node_factory Skipped ''m1'' Model 0, dbt_node_factory Skipped ''t1'' Test 0,
                     dbt_node_factory Success ''m2'' Model 0])
   = Inr [skipped_model]"
  using skips_skipped_models_only [of "\<lambda>v. ''obj''"
     "test_manifest [dbt_node_factory Skipped ''m1'' Model 0, dbt_node_factory Skipped ''t1'' Test 0,
                     dbt_node_factory Success ''m2'' Model 0]"]
  by (simp add: self_results_test_manifest dbt_node_factory_def skipped_model_def)

text \<open>
  Claim C2. \<open>overall_status\<close> is a ladder over the views, first match wins: none of the
  four views raises, and the status is Error when \<open>errors\<close> or \<open>fails\<close> is non-empty,
  else Warn when \<open>warnings\<close> is non-empty, else Skipped when \<open>skips\<close> is non-empty and
  the summary counts no Success and no Pass, else Success. On the wrappers of
  \<open>test_manifest.py\<close>: statuses [Success, Fail] give Error, [Success, Warn] give Warn,
  [Skipped] (a skipped Model) gives Skipped, [Skipped, Success] give Success and
  [Error, Warn] give Error.
\<close>

theorem overall_status_precedence:
  "(\<exists>es fs ws ss.
      errors str_obj self = Inr es \<and> fails str_obj self = Inr fs \<and>
      warnings str_obj self = Inr ws \<and> skips str_obj self = Inr ss \<and>
      overall_status str_obj self =
        Inr (if es \<noteq> [] \<or> fs \<noteq> [] then Error
             else if ws \<noteq> [] then Warn
             else if ss \<noteq> [] \<and> Counter_get (summary self) Success = 0
                              \<and> Counter_get (summary self) Pass = 0 then Skipped
             else Success))
   \<and> overall_status str_obj (test_manifest (nodes_with_status [Success, Fail])) = Inr Error
   \<and> overall_status str_obj (test_manifest (nodes_with_status [Success, Warn])) = Inr Warn
   \<and> overall_status str_obj (test_manifest (nodes_with_status [Skipped])) = Inr Skipped
   \<and> overall_status str_obj (test_manifest (nodes_with_status [Skipped, Success])) = Inr Success
   \<and> overall_status str_obj (test_manifest (nodes_with_status [Error, Warn])) = Inr Error"
proof -
  have general: "\<exists>es fs ws ss.
      errors str_obj self = Inr es \<and> fails str_obj self = Inr fs \<and>
      warnings str_obj self = Inr ws \<and> skips str_obj self = Inr ss \<and>
      overall_status str_obj self =
        Inr (if es \<noteq> [] \<or> fs \<noteq> [] then Error
             else if ws \<noteq> [] then Warn
             else if ss \<noteq> [] \<and> Counter_get (summary self) Success = 0
                              \<and> Counter_get (summary self) Pass = 0 then Skipped
             else Success)"
    unfolding errors_eq fails_eq warnings_eq skips_eq overall_status_by_views by blast
  have e1: "overall_status str_obj (test_manifest (nodes_with_status [Success, Fail])) = Inr Error"
    by (simp add: overall_status_by_views self_results_test_manifest nodes_with_status_def
        dbt_node_factory_def)
  have e2: "overall_status str_obj (test_manifest (nodes_with_status [Success, Warn])) = Inr Warn"
    by (simp add: overall_status_by_views self_results_test_manifest nodes_with_status_def
        dbt_node_factory_def)
  have e3: "overall_status str_obj (test_manifest (nodes_with_status [Skipped])) = Inr Skipped"
    by (simp add: overall_status_by_views self_results_test_manifest nodes_with_status_def
        dbt_node_factory_def summary_count)
  have e4: "overall_status str_obj (test_manifest (nodes_with_status [Skipped, Success])) = Inr Success"
    by (simp add: overall_status_by_views self_results_test_manifest nodes_with_status_def
        dbt_node_factory_def summary_count)
  have e5: "overall_status str_obj (test_manifest (nodes_with_status [Error, Warn])) = Inr Error"
    by (simp add: overall_status_by_views self_results_test_manifest nodes_with_status_def
        dbt_node_factory_def)
  show ?thesis using general e1 e2 e3 e4 e5 by blast
qed

theorem overall_status_precedence_witness:
  "overall_status (\<lambda>v. ''obj'')
     (test_manifest [dbt_node_factory Skipped ''m1'' Model 0, dbt_node_factory Pass ''t1'' Test 0])
   = Inr Success"
  using overall_status_precedence
    [of "\<lambda>v. ''obj''"
        "test_manifest [dbt_node_factory Skipped ''m1'' Model 0, dbt_node_factory Pass ''t1'' Test 0]"]
  by (auto simp: errors_eq fails_eq warnings_eq skips_eq summary_count self_results_test_manifest
      dbt_node_factory_def)

text \<open>
  Claim C10. When every node outcome is Skipped with a resource type other than Model
  (all skipped tests, say), \<open>overall_status\<close> is Success, although nothing succeeded or
  passed: the Skipped step looks at \<open>skips\<close> only, which keeps Model nodes. An empty
  result collection gives Success as well.
\<close>

theorem overall_status_skipped_non_models:
  "((\<forall>r \<in> set (node_outcomes (self_results self)).
        status r = Skipped \<and> resource_type (node r) \<noteq> Some Model)
      \<longrightarrow> overall_status str_obj self = Inr Success)
   \<and> (self_results self = [] \<longrightarrow> overall_status str_obj self = Inr Success)"
  by (auto simp: overall_status_by_views filter_empty_conv)

theorem overall_status_skipped_non_models_witness:
  "list_all (\<lambda>r. status r = Skipped \<and> resource_type (node r) \<noteq> Some Model)
     (node_outcomes (self_results
        (test_manifest [dbt_node_factory Skipped ''t1'' Test 0,
                        dbt_node_factory Skipped ''s1'' (OtherNodeType ''seed'') 0])))
   \<and> overall_status (\<lambda>v. ''obj'')
        (test_manifest [dbt_node_factory Skipped ''t1'' Test 0,
                        dbt_node_factory Skipped ''s1'' (OtherNodeType ''seed'') 0]) = Inr Success
   \<and> Counter_get (summary (test_manifest [dbt_node_factory Skipped ''t1'' Test 0,
                        dbt_node_factory Skipped ''s1'' (OtherNodeType ''seed'') 0])) Success = 0
   \<and> overall_status (\<lambda>v. ''obj'') (test_manifest []) = Inr Success"
proof -
  let ?m = "test_manifest [dbt_node_factory Skipped ''t1'' Test 0,
                        dbt_node_factory Skipped ''s1'' (OtherNodeType ''seed'') 0]"
  have h: "\<forall>r \<in> set (node_outcomes (self_results ?m)).
        status r = Skipped \<and> resource_type (node r) \<noteq> Some Model"
    by (simp add: self_results_test_manifest dbt_node_factory_def)
  have a: "overall_status (\<lambda>v. ''obj'') ?m = Inr Success"
    using overall_status_skipped_non_models [of ?m "\<lambda>v. ''obj''"] h by blast
  have b: "overall_status (\<lambda>v. ''obj'') (test_manifest []) = Inr Success"
    using overall_status_skipped_non_models [of "test_manifest []" "\<lambda>v. ''obj''"]
    by (simp add: self_results_test_manifest)
  have c: "Counter_get (summary ?m) Success = 0"
    by (simp add: summary_count self_results_test_manifest dbt_node_factory_def)
  show ?thesis using h a b c by (simp add: list_all_iff)
qed



section \<open>Properties of the command facade\<close>

text \<open>
  Claim C4, as the code has it. The argument list is the remainder of the command after a
  leading \<open>dbt \<close> (stripped when present), cut at every single space character, followed
  by \<open>--project-dir\<close> and the project directory, followed by \<open>--profiles-dir\<close> and
  the profile directory only when one was supplied. The cut is characterised by: the tokens
  joined by single spaces give the remainder back, and no token contains a space. When the
  only whitespace of a string is the space character its whitespace-separated tokens are
  the non-empty tokens of the cut, so the two agree when the cut has no empty token.
  \<open>dbt run\<close> and \<open>run\<close> give the same list, which starts with \<open>run\<close>.
\<close>

theorem cli_args_layout:
  "cli_args self cmd =
     split_space (strip_dbt cmd)
       @ [''--project-dir'', dbt_project_directory self]
       @ (case dbt_profile_directory self of None \<Rightarrow> [] | Some d \<Rightarrow> [''--profiles-dir'', d])
   \<and> strip_dbt (''dbt '' @ rest) = rest
   \<and> (take 4 cmd \<noteq> ''dbt '' \<longrightarrow> strip_dbt cmd = cmd)
   \<and> join_space (split_space s) = s
   \<and> (\<forall>t \<in> set (split_space s). CHR '' '' \<notin> set t)
   \<and> ((\<forall>c \<in> set s. is_whitespace c \<longrightarrow> c = CHR '' '')
        \<longrightarrow> whitespace_separated_tokens s = filter (\<lambda>t. t \<noteq> []) (split_space s))
   \<and> ((\<forall>c \<in> set (strip_dbt cmd). is_whitespace c \<longrightarrow> c = CHR '' '')
          \<and> [] \<notin> set (split_space (strip_dbt cmd))
        \<longrightarrow> cli_args self cmd = spec_cli_args self cmd)
   \<and> cli_args self ''dbt run'' = cli_args self ''run''
   \<and> (\<exists>flags. cli_args self ''run'' = ''run'' # flags)"
proof -
  have a: "cli_args self cmd =
     split_space (strip_dbt cmd)
       @ [''--project-dir'', dbt_project_directory self]
       @ (case dbt_profile_directory self of None \<Rightarrow> [] | Some d \<Rightarrow> [''--profiles-dir'', d])"
    by (simp add: cli_args_def)
  have b: "strip_dbt (''dbt '' @ rest) = rest"
    by (simp add: strip_dbt_def)
  have c: "take 4 cmd \<noteq> ''dbt '' \<longrightarrow> strip_dbt cmd = cmd"
    by (simp add: strip_dbt_def)
  have d: "\<forall>t \<in> set (split_space s). CHR '' '' \<notin> set t"
    using split_space_no_space by blast
  have e: "(\<forall>c \<in> set s. is_whitespace c \<longrightarrow> c = CHR '' '')
        \<longrightarrow> whitespace_separated_tokens s = filter (\<lambda>t. t \<noteq> []) (split_space s)"
    using whitespace_tokens_split by blast
  have f: "(\<forall>c \<in> set (strip_dbt cmd). is_whitespace c \<longrightarrow> c = CHR '' '')
          \<and> [] \<notin> set (split_space (strip_dbt cmd))
        \<longrightarrow> cli_args self cmd = spec_cli_args self cmd"
  proof
    assume h: "(\<forall>c \<in> set (strip_dbt cmd). is_whitespace c \<longrightarrow> c = CHR '' '')
          \<and> [] \<notin> set (split_space (strip_dbt cmd))"
    then have "whitespace_separated_tokens (strip_dbt cmd)
                 = filter (\<lambda>t. t \<noteq> []) (split_space (strip_dbt cmd))"
      using whitespace_tokens_split by blast
    also have "\<dots> = split_space (strip_dbt cmd)"
    proof -
      from h have "\<forall>t \<in> set (split_space (strip_dbt cmd)). t \<noteq> []" by metis
      then show ?thesis by (simp add: filter_id_conv)
    qed
    finally show "cli_args self cmd = spec_cli_args self cmd"
      by (simp add: cli_args_def spec_cli_args_def)
  qed
  have g: "cli_args self ''dbt run'' = cli_args self ''run''"
    by (simp add: cli_args_def strip_dbt_def)
  have h: "\<exists>flags. cli_args self ''run'' = ''run'' # flags"
    by (simp add: cli_args_def strip_dbt_def)
  show ?thesis
    apply (intro conjI)
            apply (rule a)
           apply (rule b)
          apply (rule c)
         apply (rule join_split_space)
        apply (rule d)
       apply (rule e)
      apply (rule f)
     apply (rule g)
    apply (rule h)
    done
qed

theorem cli_args_layout_witness:
  "cli_args (dbtRunnerParsons_init (OneCommand ''dbt test --select model_a'') ''/proj'' (Some ''/prof''))
     ''dbt test --select model_a''
     = [''test'', ''--select'', ''model_a'', ''--project-dir'', ''/proj'', ''--profiles-dir'', ''/prof'']
   \<and> spec_cli_args
       (dbtRunnerParsons_init (OneCommand ''dbt test --select model_a'') ''/proj'' (Some ''/prof''))
       ''dbt test --select model_a''
     = [''test'', ''--select'', ''model_a'', ''--project-dir'', ''/proj'', ''--profiles-dir'', ''/prof'']
   \<and> join_space (split_space ''run  --select a'') = ''run  --select a''"
proof -
  let ?self = "dbtRunnerParsons_init (OneCommand ''dbt test --select model_a'') ''/proj'' (Some ''/prof'')"
  note t = cli_args_layout [of ?self "''dbt test --select model_a''" "''test --select model_a''"
      "''run  --select a''"]
  have st: "strip_dbt ''dbt test --select model_a'' = ''test --select model_a''"
    by (simp add: strip_dbt_def)
  have sp: "split_space ''test --select model_a'' = [''test'', ''--select'', ''model_a'']"
    by simp
  have ws: "\<forall>c \<in> set ''test --select model_a''. is_whitespace c \<longrightarrow> c = CHR '' ''"
    by (simp add: is_whitespace_def)
  have one: "cli_args ?self ''dbt test --select model_a''
     = [''test'', ''--select'', ''model_a'', ''--project-dir'', ''/proj'', ''--profiles-dir'', ''/prof'']"
    using t [THEN conjunct1] by (simp add: st sp dbtRunnerParsons_init_def)
  have agree: "(\<forall>c \<in> set (strip_dbt ''dbt test --select model_a''). is_whitespace c \<longrightarrow> c = CHR '' '')
          \<and> [] \<notin> set (split_space (strip_dbt ''dbt test --select model_a''))
        \<longrightarrow> cli_args ?self ''dbt test --select model_a'' = spec_cli_args ?self ''dbt test --select model_a''"
    by (rule t [THEN conjunct2, THEN conjunct2, THEN conjunct2, THEN conjunct2, THEN conjunct2,
          THEN conjunct2, THEN conjunct1])
  have pre: "(\<forall>c \<in> set (strip_dbt ''dbt test --select model_a''). is_whitespace c \<longrightarrow> c = CHR '' '')
          \<and> [] \<notin> set (split_space (strip_dbt ''dbt test --select model_a''))"
    unfolding st sp using ws by simp
  have two: "cli_args ?self ''dbt test --select model_a'' = spec_cli_args ?self ''dbt test --select model_a''"
    using agree pre by (rule mp)
  have three: "join_space (split_space ''run  --select a'') = ''run  --select a''"
    by (rule t [THEN conjunct2, THEN conjunct2, THEN conjunct2, THEN conjunct1])
  show ?thesis
    apply (intro conjI)
      apply (rule one)
     apply (simp only: two [symmetric] one)
    apply (rule three)
    done
qed

text \<open>
  Claim C4, as the spec words it, fails: with two spaces in a row the code passes an empty
  token to the runner, where the whitespace-separated tokens have none.
\<close>

theorem cli_args_not_whitespace_tokens:
  "cli_args (dbtRunnerParsons_init (OneCommand ''run  --select a'') ''/proj'' None) ''run  --select a''
     = [''run'', [], ''--select'', ''a'', ''--project-dir'', ''/proj'']
   \<and> spec_cli_args (dbtRunnerParsons_init (OneCommand ''run  --select a'') ''/proj'' None)
       ''run  --select a''
     = [''run'', ''--select'', ''a'', ''--project-dir'', ''/proj'']
   \<and> cli_args (dbtRunnerParsons_init (OneCommand ''run  --select a'') ''/proj'' None) ''run  --select a''
     \<noteq> spec_cli_args (dbtRunnerParsons_init (OneCommand ''run  --select a'') ''/proj'' None)
         ''run  --select a''"
  by (simp add: cli_args_def spec_cli_args_def strip_dbt_def dbtRunnerParsons_init_def
      whitespace_separated_tokens_def is_whitespace_def)

text \<open>
  Claim C3. When the commands before \<open>cmd\<close> have run without an exception and the
  runner's result for \<open>cmd\<close> carries an exception, \<open>run\<close> raises that very exception
  object and returns no list. With a runner that logs its invocations, the log holds the
  argument lists of the commands up to \<open>cmd\<close> and nothing else: the commands after it
  are never executed.
\<close>

theorem run_reraises_runner_exception:
  assumes cmds: "commands self = before @ cmd # after"
    and before: "run_loop truthy invoke self before [] w = (Inr collected, w1)"
    and inv: "invoke (cli_args self cmd) w1 = (r, w2)"
    and exc: "exception r = Some e"
  shows "run truthy invoke self w = (Inl e, w2)
       \<and> run truthy (logged invoke) self (w, []) =
           (Inl e, (w2, map (cli_args self) (before @ [cmd])))"
proof -
  have stop: "execute_dbt_command invoke self cmd w1 = (Inl e, w2)"
    using inv exc by (rule execute_exception)
  have one: "run truthy invoke self w = (Inl e, w2)"
    by (simp add: run_def cmds run_loop_append before stop)
  have lb: "run_loop truthy (logged invoke) self before [] (w, []) =
              (Inr collected, (w1, [] @ map (cli_args self) before))"
    using before by (rule run_loop_logged_ok)
  have two: "run truthy (logged invoke) self (w, []) =
           (Inl e, (w2, map (cli_args self) (before @ [cmd])))"
    using lb by (simp add: run_def cmds run_loop_append execute_logged stop)
  show ?thesis using one two by simp
qed

theorem run_reraises_runner_exception_witness:
  "run nonempty_results stub_invoke (stub_runner [''dbt run'', ''test'', ''seed'']) 0
     = (Inl (PyException ''DbtInternalException'' ''dbt profile not found''), 2)
   \<and> run nonempty_results (logged stub_invoke) (stub_runner [''dbt run'', ''test'', ''seed'']) (0, [])
     = (Inl (PyException ''DbtInternalException'' ''dbt profile not found''),
        (2, [[''run'', ''--project-dir'', ''/proj''], [''test'', ''--project-dir'', ''/proj'']]))"
proof -
  let ?self = "stub_runner [''dbt run'', ''test'', ''seed'']"
  let ?r = "\<lparr>exception = Some (PyException ''DbtInternalException'' ''dbt profile not found''),
         result = None\<rparr>"
  have args_run: "cli_args ?self ''dbt run'' = [''run'', ''--project-dir'', ''/proj'']"
    by (simp add: cli_args_def strip_dbt_def stub_runner_def dbtRunnerParsons_init_def)
  have args_test: "cli_args ?self ''test'' = [''test'', ''--project-dir'', ''/proj'']"
    by (simp add: cli_args_def strip_dbt_def stub_runner_def dbtRunnerParsons_init_def)
  have cmds: "commands ?self = [''dbt run''] @ ''test'' # [''seed'']"
    by (simp add: stub_runner_def dbtRunnerParsons_init_def)
  have before: "run_loop nonempty_results stub_invoke ?self [''dbt run''] [] 0 =
      (Inr [\<lparr>command = ''run'',
             run_execution_result =
               run_execution_result_factory [dbt_node_factory Success ''my_model'' Model 0]\<rparr>], 1)"
    by (simp add: execute_dbt_command_def args_run stub_invoke_def Manifest_init_def strip_dbt_def
        nonempty_results_def run_execution_result_factory_def)
  have inv: "stub_invoke (cli_args ?self ''test'') 1 = (?r, 2)"
    by (simp add: args_test stub_invoke_def)
  have exc: "exception ?r = Some (PyException ''DbtInternalException'' ''dbt profile not found'')"
    by simp
  show ?thesis
    using run_reraises_runner_exception [OF cmds before inv exc]
    by (simp add: args_run args_test)
qed

text \<open>
  Claim C1 does not hold of the code. When the runner's result for \<open>cmd\<close> carries no
  exception and no outcome object, \<open>execute_dbt_command\<close> hands \<open>None\<close> to the
  wrapper's constructor, which raises \<open>Exception("missing run_execution_result")\<close>:
  the batch stops with that exception, the test of \<open>run\<close> that would leave the command
  out is never reached, and no list is returned.
\<close>

theorem run_raises_on_missing_outcome:
  assumes cmds: "commands self = before @ cmd # after"
    and before: "run_loop truthy invoke self before [] w = (Inr collected, w1)"
    and inv: "invoke (cli_args self cmd) w1 = (r, w2)"
    and exc: "exception r = None"
    and res: "result r = None"
  shows "run truthy invoke self w =
           (Inl (PyException ''Exception'' ''missing run_execution_result''), w2)"
proof -
  have stop: "execute_dbt_command invoke self cmd w1 =
      (Inl (PyException ''Exception'' ''missing run_execution_result''), w2)"
    using inv exc res by (rule execute_missing_outcome)
  show ?thesis
    by (simp add: run_def cmds run_loop_append before stop)
qed

theorem run_raises_on_missing_outcome_witness:
  "run nonempty_results stub_invoke (stub_runner [''dbt run'', ''deps'', ''seed'']) 0
     = (Inl (PyException ''Exception'' ''missing run_execution_result''), 2)"
proof -
  let ?self = "stub_runner [''dbt run'', ''deps'', ''seed'']"
  let ?r = "\<lparr>exception = None, result = None\<rparr>"
  have args_run: "cli_args ?self ''dbt run'' = [''run'', ''--project-dir'', ''/proj'']"
    by (simp add: cli_args_def strip_dbt_def stub_runner_def dbtRunnerParsons_init_def)
  have args_deps: "cli_args ?self ''deps'' = [''deps'', ''--project-dir'', ''/proj'']"
    by (simp add: cli_args_def strip_dbt_def stub_runner_def dbtRunnerParsons_init_def)
  have cmds: "commands ?self = [''dbt run''] @ ''deps'' # [''seed'']"
    by (simp add: stub_runner_def dbtRunnerParsons_init_def)
  have before: "run_loop nonempty_results stub_invoke ?self [''dbt run''] [] 0 =
      (Inr [\<lparr>command = ''run'',
             run_execution_result =
               run_execution_result_factory [dbt_node_factory Success ''my_model'' Model 0]\<rparr>], 1)"
    by (simp add: execute_dbt_command_def args_run stub_invoke_def Manifest_init_def strip_dbt_def
        nonempty_results_def run_execution_result_factory_def)
  have inv: "stub_invoke (cli_args ?self ''deps'') 1 = (?r, 2)"
    by (simp add: args_deps stub_invoke_def)
  show ?thesis
    using run_raises_on_missing_outcome [OF cmds before inv]
    by simp
qed

end
